theory Spec2Isabelle
  imports Complex_Main "HOL-Library.Stream"
begin

section \<open>Arrays and library primitives\<close>

text \<open>
  The program is \<^verbatim>\<open>maxentropy/bigmodel.py\<close>: the class \<^verbatim>\<open>BigModel\<close>, a
  maximum-entropy model whose expectations are estimated by importance sampling.

  Numbers are modelled as mathematical reals: every float of the program is a \<^typ>\<open>real\<close> and
  every operation on floats is the exact operation, so the theorems below are statements about
  the formulas the code evaluates, not about rounding. Python's unbounded integers are
  \<^typ>\<open>int\<close>. A one-dimensional numpy array is a list of reals, a two-dimensional one a shape
  with an entry function. Sparse matrices are not modelled; printing (everything under
  \<^verbatim>\<open>self.verbose\<close>) has no effect on the state and is left out.
\<close>

type_synonym vec = "real list"

record matrix =
  nrows :: nat
  ncols :: nat
  entry :: "nat \<Rightarrow> nat \<Rightarrow> real"

text \<open>Every \<^verbatim>\<open>raise\<close> of the program, and every exception of Python or numpy that a
  call of the program can meet, is a value of this type. The string of a \<open>ValueError\<close> is its
  message (for the two raised by \<^verbatim>\<open>resample\<close>, the message of the source); the string of
  an \<open>AttributeError\<close> or \<open>NameError\<close> is the name that is not bound.\<close>

datatype error =
    AttributeError string
  | ValueError string
  | NameError string
  | IndexError
  | TypeError
  | ZeroDivisionError

definition col :: "matrix \<Rightarrow> nat \<Rightarrow> vec" where
  "col F j = map (\<lambda>i. entry F i j) [0..<nrows F]"

definition row :: "matrix \<Rightarrow> nat \<Rightarrow> vec" where
  "row F i = map (\<lambda>j. entry F i j) [0..<ncols F]"

definition inner :: "vec \<Rightarrow> vec \<Rightarrow> real" where
  "inner a b = sum_list (map2 (*) a b)"

text \<open>\<^verbatim>\<open>np.dot(a, b)\<close> on two one-dimensional arrays: the lengths must agree.\<close>

definition np_dot :: "vec \<Rightarrow> vec \<Rightarrow> error + real" where
  "np_dot a b =
     (if length a = length b then Inr (inner a b)
      else Inl (ValueError ''shapes not aligned''))"

text \<open>\<^verbatim>\<open>F.dot(v)\<close> for a two-dimensional \<open>F\<close> and a one-dimensional \<open>v\<close>.\<close>

definition mat_dot :: "matrix \<Rightarrow> vec \<Rightarrow> error + vec" where
  "mat_dot F v =
     (if length v = ncols F then Inr (map (\<lambda>i. inner (row F i) v) [0..<nrows F])
      else Inl (ValueError ''shapes not aligned''))"

text \<open>Modelled from the spec: \<^verbatim>\<open>innerprodtranspose\<close> is a function of the package's module
  \<^verbatim>\<open>maxentutils\<close>, which is not among the sources at hand. The spec gives its result in
  \<open>logv_j = \<theta>\<cdot>F[:,j] - logaux_j\<close>: entry \<open>j\<close> is the inner product of the vector with column
  \<open>j\<close> of the matrix (the product of the transposed matrix with the vector).\<close>

definition innerprodtranspose :: "matrix \<Rightarrow> vec \<Rightarrow> error + vec" where
  "innerprodtranspose F v =
     (if length v = nrows F then Inr (map (\<lambda>j. inner v (col F j)) [0..<ncols F])
      else Inl (ValueError ''shapes not aligned''))"

text \<open>An elementwise binary operation of numpy on two one-dimensional arrays (\<^verbatim>\<open>a - b\<close>,
  \<^verbatim>\<open>a + b\<close>): equal lengths, or one operand of length one, which is broadcast.\<close>

definition broadcast :: "(real \<Rightarrow> real \<Rightarrow> real) \<Rightarrow> vec \<Rightarrow> vec \<Rightarrow> error + vec" where
  "broadcast f a b =
     (if length a = length b then Inr (map2 f a b)
      else if length b = 1 then Inr (map (\<lambda>x. f x (hd b)) a)
      else if length a = 1 then Inr (map (\<lambda>y. f (hd a) y) b)
      else Inl (ValueError ''operands could not be broadcast together''))"

text \<open>The in-place \<^verbatim>\<open>a += b\<close>: the result keeps the shape of \<open>a\<close>, so only \<open>b\<close> is broadcast.\<close>

definition iadd :: "vec \<Rightarrow> vec \<Rightarrow> error + vec" where
  "iadd a b =
     (if length a = length b then Inr (map2 (+) a b)
      else if length b = 1 then Inr (map (\<lambda>x. x + hd b) a)
      else Inl (ValueError ''operands could not be broadcast together''))"

text \<open>\<^verbatim>\<open>scipy.misc.logsumexp\<close> of a one-dimensional array (it takes the maximum first, which
  fails on an empty array), and \<^verbatim>\<open>math.log\<close>.\<close>

definition logsumexp :: "vec \<Rightarrow> error + real" where
  "logsumexp a =
     (if a = [] then Inl (ValueError ''zero-size array to reduction operation maximum'')
      else Inr (ln (sum_list (map exp a))))"

definition math_log :: "real \<Rightarrow> error + real" where
  "math_log x = (if x \<le> 0 then Inl (ValueError ''math domain error'') else Inr (ln x))"

text \<open>\<^verbatim>\<open>xs[e]\<close> on a Python list, for an index that is not negative.\<close>

definition index :: "'a list \<Rightarrow> nat \<Rightarrow> error + 'a" where
  "index xs e = (if e < length xs then Inr (xs ! e) else Inl IndexError)"

text \<open>Reading an attribute that may not have been set.\<close>

definition attr :: "string \<Rightarrow> 'a option \<Rightarrow> error + 'a" where
  "attr name v = (case v of None \<Rightarrow> Inl (AttributeError name) | Some x \<Rightarrow> Inr x)"

text \<open>Sequencing: an exception of the first computation ends the whole.\<close>

definition bind_err :: "error + 'a \<Rightarrow> ('a \<Rightarrow> error + 'b) \<Rightarrow> error + 'b" where
  "bind_err m f = (case m of Inl err \<Rightarrow> Inl err | Inr x \<Rightarrow> f x)"

section \<open>The model object\<close>

text \<open>What the sampler hands over as log-probabilities: \<^verbatim>\<open>resample\<close> checks that it is a
  numpy array of shape \<open>(n,)\<close>.\<close>

datatype logprobs_obj =
    Ndarray1 vec          \<comment> \<open>a one-dimensional numpy array\<close>
  | NdarrayOther          \<comment> \<open>a numpy array of another dimension\<close>
  | NotNdarray            \<comment> \<open>any other Python object\<close>

text \<open>\<^verbatim>\<open>float('inf')\<close> is the initial \<^verbatim>\<open>bestdual\<close>.\<close>

datatype xreal = Fin real | PInf

fun less_xreal :: "real \<Rightarrow> xreal \<Rightarrow> bool" where
  "less_xreal x PInf = True"
| "less_xreal x (Fin y) = (x < y)"

text \<open>The attributes of a \<^verbatim>\<open>BigModel\<close> that the methods below read or write. An attribute
  that \<^verbatim>\<open>hasattr\<close> can find missing is an \<open>option\<close> (\<open>None\<close>: not set), except
  \<open>priorlogprobs\<close>, \<open>external\<close>, \<open>stepdecreaserate\<close> and \<open>externalpriorlogprobs\<close>, where
  \<open>None\<close> is Python's \<^verbatim>\<open>None\<close>. \<open>samplegen\<close> is the generator \<^verbatim>\<open>feature_sampler\<close>: an
  infinite stream of triples \<open>(F, log_q_xs, xs)\<close>; \<open>'x\<close> is the type of a raw sample.\<close>

record 'x bigmodel =
  params :: "vec option"
  priorlogprobs :: "vec option"
  external :: "nat option"
  self_K :: "vec option"
  maxiter :: int
  iters :: int
  samplegen :: "(matrix \<times> logprobs_obj \<times> 'x) stream option"
  sampleF :: "matrix option"
  samplelogprobs :: "vec option"
  sample :: "'x option"
  logv :: "vec option"
  logZapprox :: "real option"
  mu :: "vec option"
  varE :: "vec option"
  matrixtrials :: int
  bestdual :: xreal
  bestparams :: "vec option"
  deylon :: bool
  stepdecreaserate :: "real option"
  exacttest :: bool
  ruppertaverage :: bool
  andradottir :: bool
  a_0_hold :: int
  a_0 :: "real option"
  staticsample :: bool
  testevery :: int
  paramslogcounter :: "int option"
  nosignswitch :: "int list option"
  SAerror :: "real list option"
  externalFs :: "matrix list option"
  externallogprobs :: "vec list option"
  externalpriorlogprobs :: "vec list option"
  external_duals :: "int \<rightharpoonup> real list"
  external_gradnorms :: "int \<rightharpoonup> real list"

text \<open>Modelled from the spec: \<^verbatim>\<open>clearcache\<close> and \<^verbatim>\<open>setparams\<close> are methods of the base
  class \<^verbatim>\<open>BaseModel\<close>, which is not among the sources at hand. The spec: the derived cache
  is \<open>{logv, logZ, \<mu>, varE}\<close>; the parameter vector is "mutated only through an explicit set
  parameters operation that also invalidates all derived caches".\<close>

definition clearcache :: "'x bigmodel \<Rightarrow> 'x bigmodel" where
  "clearcache s = s\<lparr>logv := None, logZapprox := None, mu := None, varE := None\<rparr>"

definition setparams :: "vec \<Rightarrow> 'x bigmodel \<Rightarrow> 'x bigmodel" where
  "setparams th s = clearcache (s\<lparr>params := Some th\<rparr>)"

section \<open>Importance weights and the log partition function\<close>

text \<open>The sample record the weights are computed from: the internal sample when
  \<^verbatim>\<open>self.external is None\<close>, else the external record at index \<open>e\<close>. The attributes are read
  in the order of the source.\<close>

definition weights :: "'x bigmodel \<Rightarrow> error + vec" where
  "weights s =
     (case external s of
        None \<Rightarrow>
          bind_err (attr ''sampleF'' (sampleF s)) (\<lambda>F.
          bind_err (attr ''params'' (params s)) (\<lambda>th.
          bind_err (innerprodtranspose F th) (\<lambda>paramsdotF.
          bind_err (attr ''samplelogprobs'' (samplelogprobs s)) (\<lambda>lp.
          bind_err (broadcast (-) paramsdotF lp) (\<lambda>lv.
          (case priorlogprobs s of None \<Rightarrow> Inr lv | Some pr \<Rightarrow> iadd lv pr))))))
      | Some e \<Rightarrow>
          bind_err (attr ''externalFs'' (externalFs s)) (\<lambda>Fs.
          bind_err (index Fs e) (\<lambda>F.
          bind_err (attr ''params'' (params s)) (\<lambda>th.
          bind_err (innerprodtranspose F th) (\<lambda>paramsdotF.
          bind_err (attr ''externallogprobs'' (externallogprobs s)) (\<lambda>lps.
          bind_err (index lps e) (\<lambda>lp.
          bind_err (broadcast (-) paramsdotF lp) (\<lambda>lv.
          (case externalpriorlogprobs s of
             None \<Rightarrow> Inr lv
           | Some prs \<Rightarrow> bind_err (index prs e) (\<lambda>pr. iadd lv pr))))))))))"

text \<open>The method \<^verbatim>\<open>_logv\<close>: the cached vector when there is one, else the weights, which it
  stores.\<close>

definition p_logv :: "'x bigmodel \<Rightarrow> error + (vec \<times> 'x bigmodel)" where
  "p_logv s =
     (case logv s of
        Some lv \<Rightarrow> Inr (lv, s)
      | None \<Rightarrow> bind_err (weights s) (\<lambda>lv. Inr (lv, s\<lparr>logv := Some lv\<rparr>)))"

definition lognormconst :: "'x bigmodel \<Rightarrow> error + (real \<times> 'x bigmodel)" where
  "lognormconst s =
     (case logZapprox s of
        Some z \<Rightarrow> Inr (z, s)
      | None \<Rightarrow>
          bind_err (p_logv s) (\<lambda>(lv, s1).
          bind_err (logsumexp lv) (\<lambda>lse.
          bind_err (math_log (real (length lv))) (\<lambda>ln_n.
          Inr (lse - ln_n, s1\<lparr>logZapprox := Some (lse - ln_n)\<rparr>)))))"

text \<open>The sample record the selector points to, for stating the claims: the feature matrix,
  the log auxiliary density and the prior log-density (if any).\<close>

definition active_sample :: "'x bigmodel \<Rightarrow> (matrix \<times> vec \<times> vec option) option" where
  "active_sample s =
     (case external s of
        None \<Rightarrow>
          (case (sampleF s, samplelogprobs s) of
             (Some F, Some lp) \<Rightarrow> Some (F, lp, priorlogprobs s)
           | _ \<Rightarrow> None)
      | Some e \<Rightarrow>
          (case (externalFs s, externallogprobs s) of
             (Some Fs, Some lps) \<Rightarrow>
               (if e < length Fs \<and> e < length lps then
                  (case externalpriorlogprobs s of
                     None \<Rightarrow> Some (Fs ! e, lps ! e, None)
                   | Some prs \<Rightarrow>
                       (if e < length prs then Some (Fs ! e, lps ! e, Some (prs ! e)) else None))
                else None)
           | _ \<Rightarrow> None))"

text \<open>The vector the spec writes \<open>logv_j = \<theta>\<cdot>F[:,j] - logaux_j (+ logprior_j)\<close>.\<close>

definition logv_spec :: "vec \<Rightarrow> matrix \<Rightarrow> vec \<Rightarrow> vec option \<Rightarrow> vec" where
  "logv_spec th F logaux prior =
     map (\<lambda>j. inner th (col F j) - logaux ! j + (case prior of None \<Rightarrow> 0 | Some pr \<Rightarrow> pr ! j))
       [0..<ncols F]"

lemma broadcast_same:
  "length a = length b \<Longrightarrow> broadcast f a b = Inr (map2 f a b)"
  by (simp add: broadcast_def)

lemma iadd_same: "length a = length b \<Longrightarrow> iadd a b = Inr (map2 (+) a b)"
  by (simp add: iadd_def)

lemma map2_upt:
  "length b = n \<Longrightarrow> map2 f (map g [0..<n]) b = map (\<lambda>j. f (g j) (b ! j)) [0..<n]"
  by (auto simp: list_eq_iff_nth_eq)

lemma weights_internal:
  assumes "external s = None" "sampleF s = Some F" "samplelogprobs s = Some logaux"
    and "params s = Some th"
    and "length th = nrows F"
    and "length logaux = ncols F"
    and "case priorlogprobs s of None \<Rightarrow> True | Some pr \<Rightarrow> length pr = ncols F"
  shows "weights s = Inr (logv_spec th F logaux (priorlogprobs s))"
  using assms
  by (cases "priorlogprobs s")
    (simp_all add: weights_def attr_def bind_err_def innerprodtranspose_def broadcast_same
      iadd_same map2_upt logv_spec_def)

lemma weights_external:
  assumes "external s = Some e" "externalFs s = Some Fs" "externallogprobs s = Some lps"
    and "e < length Fs" "e < length lps"
    and "params s = Some th"
    and "length th = nrows (Fs ! e)"
    and "length (lps ! e) = ncols (Fs ! e)"
    and "externalpriorlogprobs s = None"
  shows "weights s = Inr (logv_spec th (Fs ! e) (lps ! e) None)"
  using assms
  by (simp add: weights_def attr_def bind_err_def innerprodtranspose_def broadcast_same
      index_def map2_upt logv_spec_def)

lemma weights_external_prior:
  assumes "external s = Some e" "externalFs s = Some Fs" "externallogprobs s = Some lps"
    and "e < length Fs" "e < length lps"
    and "params s = Some th"
    and "length th = nrows (Fs ! e)"
    and "length (lps ! e) = ncols (Fs ! e)"
    and "externalpriorlogprobs s = Some prs" "e < length prs"
    and "length (prs ! e) = ncols (Fs ! e)"
  shows "weights s = Inr (logv_spec th (Fs ! e) (lps ! e) (Some (prs ! e)))"
  using assms
  by (simp add: weights_def attr_def bind_err_def innerprodtranspose_def broadcast_same
      iadd_same index_def map2_upt logv_spec_def)

lemma weights_active:
  assumes act: "active_sample s = Some (F, logaux, prior)"
    and th: "params s = Some th" "length th = nrows F"
    and la: "length logaux = ncols F"
    and pr: "case prior of None \<Rightarrow> True | Some pr \<Rightarrow> length pr = ncols F"
  shows "weights s = Inr (logv_spec th F logaux prior)"
proof (cases "external s")
  case None
  from act None obtain "sampleF s = Some F" "samplelogprobs s = Some logaux"
    "prior = priorlogprobs s"
    by (auto simp: active_sample_def split: option.splits)
  with None th la pr show ?thesis
    using weights_internal [of s F logaux th] by simp
next
  case (Some e)
  from act Some obtain Fs lps where ext: "externalFs s = Some Fs" "externallogprobs s = Some lps"
    by (auto simp: active_sample_def split: option.splits)
  with act Some have lt: "e < length Fs" "e < length lps"
    by (auto simp: active_sample_def split: option.splits if_splits)
  show ?thesis
  proof (cases "externalpriorlogprobs s")
    case None
    with act Some ext lt have "F = Fs ! e" "logaux = lps ! e" "prior = None"
      by (auto simp: active_sample_def)
    with Some ext lt th la None show ?thesis
      using weights_external [of s e Fs lps th] by simp
  next
    case (Some prs)
    with act \<open>external s = Some e\<close> ext lt
    have "e < length prs" "F = Fs ! e" "logaux = lps ! e" "prior = Some (prs ! e)"
      by (auto simp: active_sample_def split: if_splits)
    with \<open>external s = Some e\<close> ext lt th la pr Some show ?thesis
      using weights_external_prior [of s e Fs lps th prs] by simp
  qed
qed

lemma logv_spec_nth:
  "j < ncols F \<Longrightarrow> logv_spec th F logaux prior ! j =
     inner th (col F j) - logaux ! j + (case prior of None \<Rightarrow> 0 | Some pr \<Rightarrow> pr ! j)"
  by (cases prior) (simp_all add: logv_spec_def)

lemma length_logv_spec: "length (logv_spec th F logaux prior) = ncols F"
  by (simp add: logv_spec_def)

lemma p_logv_fresh:
  "logv s = None \<Longrightarrow> weights s = Inr lv \<Longrightarrow> p_logv s = Inr (lv, s\<lparr>logv := Some lv\<rparr>)"
  by (simp add: p_logv_def bind_err_def)

lemma p_logv_cached: "logv s = Some lv \<Longrightarrow> p_logv s = Inr (lv, s)"
  by (simp add: p_logv_def)


section \<open>Drawing a sample\<close>

text \<open>The method \<^verbatim>\<open>resample\<close>. It deletes the old sample, takes the next triple of the
  generator, checks the number of rows against the parameters (which it creates as zeros when
  there are none), checks the log-probabilities, and clears the cache. An exception leaves the
  method at once: the model returns the error alone, not the state the exception leaves behind
  (so \<open>samplelogprobs\<close> is written here only once it has passed its check). Both checks raise
  a \<^verbatim>\<open>ValueError\<close>; the two messages of the source tell them apart.\<close>

definition msg_rows :: string where
  "msg_rows = ''the sample feature generator returned a feature matrix of incorrect dimensions. The number of rows must equal the number of model parameters.''"

definition msg_logprobs :: string where
  "msg_logprobs = ''Your sampler appears to be spitting out logprobs of the wrong dimensionality.''"

definition resample :: "'x bigmodel \<Rightarrow> error + 'x bigmodel" where
  "resample s =
     (let s0 = s\<lparr>sampleF := None, samplelogprobs := None, sample := None\<rparr> in
      bind_err (attr ''samplegen'' (samplegen s0)) (\<lambda>g.
        (case shd g of (F, lp, xs) \<Rightarrow>
           (let s1 = s0\<lparr>samplegen := Some (stl g), sampleF := Some F, sample := Some xs\<rparr> in
            bind_err
              (case params s1 of
                 None \<Rightarrow> Inr (s1\<lparr>params := Some (replicate (nrows F) 0)\<rparr>)
               | Some th \<Rightarrow>
                   (if nrows F \<noteq> length th then
                      Inl (ValueError msg_rows)
                    else Inr s1))
              (\<lambda>s2.
                 (case lp of
                    Ndarray1 d \<Rightarrow>
                      (if length d = ncols F then
                         Inr (clearcache (s2\<lparr>samplelogprobs := Some d\<rparr>))
                       else Inl (ValueError msg_logprobs))
                  | NdarrayOther \<Rightarrow>
                      Inl (ValueError msg_logprobs)
                  | NotNdarray \<Rightarrow>
                      Inl (ValueError msg_logprobs)))))))"

section \<open>The expectation estimator\<close>

text \<open>A global name that the module never binds. \<^verbatim>\<open>bigmodel.py\<close> imports \<^verbatim>\<open>types\<close>, \<^verbatim>\<open>math\<close>,
  \<^verbatim>\<open>numpy\<close>, \<^verbatim>\<open>logsumexp\<close>, \<^verbatim>\<open>BaseModel\<close> and, from \<^verbatim>\<open>maxentutils\<close>, only \<^verbatim>\<open>innerprod\<close>,
  \<^verbatim>\<open>innerprodtranspose\<close> and \<^verbatim>\<open>vec_feature_function\<close>; at module level it defines the class and
  nothing else. Its methods call \<^verbatim>\<open>columnvariances\<close>, \<^verbatim>\<open>columnmeans\<close> and \<^verbatim>\<open>norm\<close> all the
  same. Python looks a global name up when the expression is evaluated, so each of these
  calls raises \<^verbatim>\<open>NameError\<close> before the function would be applied. The code that follows such
  a lookup is written below as the source has it, with the name as a bound variable; it never
  runs.\<close>

definition global_name :: "string \<Rightarrow> error + 'a" where
  "global_name name = Inl (NameError name)"

text \<open>The feature matrix that \<^verbatim>\<open>estimate\<close> multiplies with the weights.\<close>

definition active_F :: "'x bigmodel \<Rightarrow> error + matrix" where
  "active_F s =
     (case external s of
        None \<Rightarrow> attr ''sampleF'' (sampleF s)
      | Some e \<Rightarrow> bind_err (attr ''externalFs'' (externalFs s)) (\<lambda>Fs. index Fs e))"

text \<open>One pass of the loop of \<^verbatim>\<open>estimate\<close>: it returns the pair \<open>(averages, logZ)\<close> that the
  loop appends to \<open>mus\<close> and \<open>logZs\<close>. With \<open>n = 0\<close> numpy's division gives \<open>nan\<close> entries; the
  reals have none, so the model stops there (the case needs an empty cached \<open>logv\<close> beside a
  cached \<open>logZapprox\<close>: \<^verbatim>\<open>lognormconst\<close> itself fails on an empty sample).\<close>

definition trial :: "'x bigmodel \<Rightarrow> error + ((vec \<times> real) \<times> 'x bigmodel)" where
  "trial s =
     bind_err (if \<not> staticsample s \<or> matrixtrials s > 1 then resample s else Inr s) (\<lambda>s1.
     bind_err (p_logv s1) (\<lambda>(lv, s2).
     bind_err (lognormconst s2) (\<lambda>(logZ, s3).
     bind_err (active_F s3) (\<lambda>F.
     bind_err (mat_dot F (map (\<lambda>v. exp (v - logZ)) lv)) (\<lambda>averages.
       (if length lv = 0 then Inl ZeroDivisionError
        else Inr ((map (\<lambda>x. x / real (length lv)) averages, logZ), s3)))))))"

fun trials :: "nat \<Rightarrow> 'x bigmodel \<Rightarrow> error + ((vec \<times> real) list \<times> 'x bigmodel)" where
  "trials 0 s = Inr ([], s)"
| "trials (Suc t) s =
     bind_err (trial s) (\<lambda>(r, s1).
     bind_err (trials t s1) (\<lambda>(rs, s2). Inr (r # rs, s2)))"

text \<open>The aggregation at the end of \<^verbatim>\<open>estimate\<close>, from the list of the trials' pairs. With more
  than one trial the pooled \<open>logZ\<close> is computed and stored; the next statement,
  \<^verbatim>\<open>self.varE = columnvariances(mus)\<close>, looks up a name that is not bound.\<close>

definition aggregate :: "(vec \<times> real) list \<Rightarrow> 'x bigmodel \<Rightarrow> error + 'x bigmodel" where
  "aggregate rs s =
     (let mus = map fst rs; logZs = map snd rs; ttrials = length mus in
      if ttrials = 1 then
        Inr (s\<lparr>mu := Some (hd mus), logZapprox := Some (hd logZs), varE := None\<rparr>)
      else
        bind_err (logsumexp logZs) (\<lambda>lse.
        bind_err (math_log (real ttrials)) (\<lambda>ln_t.
        bind_err (global_name ''columnvariances'') (\<lambda>columnvariances.
        bind_err (global_name ''columnmeans'') (\<lambda>columnmeans.
          Inr (s\<lparr>logZapprox := Some (lse - ln_t),
                 varE := Some (columnvariances mus),
                 mu := Some (columnmeans mus)\<rparr>))))))"

definition estimate :: "'x bigmodel \<Rightarrow> error + 'x bigmodel" where
  "estimate s =
     bind_err (trials (nat (matrixtrials s)) s) (\<lambda>(rs, s1). aggregate rs s1)"

definition expectations :: "'x bigmodel \<Rightarrow> error + (vec \<times> 'x bigmodel)" where
  "expectations s =
     (case mu s of
        Some m \<Rightarrow> Inr (m, s)
      | None \<Rightarrow>
          bind_err (estimate s) (\<lambda>s1.
          bind_err (attr ''mu'' (mu s1)) (\<lambda>m. Inr (m, s1))))"

section \<open>The density\<close>

text \<open>\<^verbatim>\<open>logpdf(fx, log_prior_x)\<close>: \<open>fx\<close> is a one-dimensional array (the result is a number)
  or a two-dimensional one (the result is an array).\<close>

datatype fx_arg = Fx1 vec | Fx2 matrix

datatype pyvalue = Scalar real | Vector vec

fun value_add :: "pyvalue \<Rightarrow> pyvalue \<Rightarrow> error + pyvalue" where
  "value_add (Scalar a) (Scalar b) = Inr (Scalar (a + b))"
| "value_add (Scalar a) (Vector v) = Inr (Vector (map (\<lambda>x. a + x) v))"
| "value_add (Vector v) (Scalar b) = Inr (Vector (map (\<lambda>x. x + b) v))"
| "value_add (Vector v) (Vector w) = bind_err (iadd v w) (\<lambda>r. Inr (Vector r))"

definition logpdf ::
  "fx_arg \<Rightarrow> pyvalue option \<Rightarrow> 'x bigmodel \<Rightarrow> error + (pyvalue \<times> 'x bigmodel)" where
  "logpdf fx log_prior_x s =
     bind_err (lognormconst s) (\<lambda>(log_Z_est, s1).
     bind_err (attr ''params'' (params s1)) (\<lambda>th.
     bind_err
       (case fx of
          Fx1 v \<Rightarrow> bind_err (np_dot th v) (\<lambda>d. Inr (Scalar (d - log_Z_est)))
        | Fx2 A \<Rightarrow>
            bind_err (innerprodtranspose A th) (\<lambda>d. Inr (Vector (map (\<lambda>x. x - log_Z_est) d))))
       (\<lambda>lp.
          (case log_prior_x of
             None \<Rightarrow> Inr (lp, s1)
           | Some pr \<Rightarrow> bind_err (value_add lp pr) (\<lambda>r. Inr (r, s1))))))"

section \<open>Example objects\<close>

text \<open>A model object as \<^verbatim>\<open>BigModel.__init__\<close> leaves it (the attributes of the base class
  unset, \<^verbatim>\<open>None\<close> or zero, and a thousand iterations at most), with a generator in place, and
  small concrete objects on which the theorems below are instantiated.\<close>

definition init_model :: "(matrix \<times> logprobs_obj \<times> 'x) stream \<Rightarrow> 'x bigmodel" where
  "init_model g =
     \<lparr>params = None, priorlogprobs = None, external = None, self_K = None, maxiter = 1000,
      iters = 0, samplegen = Some g, sampleF = None, samplelogprobs = None, sample = None,
      logv = None, logZapprox = None, mu = None, varE = None, matrixtrials = 1,
      bestdual = PInf, bestparams = None, deylon = False, stepdecreaserate = Some 0.75,
      exacttest = False, ruppertaverage = True, andradottir = False, a_0_hold = 0,
      a_0 = None, staticsample = True, testevery = 0, paramslogcounter = None,
      nosignswitch = None, SAerror = None, externalFs = None, externallogprobs = None,
      externalpriorlogprobs = None, external_duals = Map.empty,
      external_gradnorms = Map.empty\<rparr>"

definition const_matrix :: "nat \<Rightarrow> nat \<Rightarrow> real \<Rightarrow> matrix" where
  "const_matrix m n c = \<lparr>nrows = m, ncols = n, entry = (\<lambda>i j. c)\<rparr>"

definition example_gen :: "(matrix \<times> logprobs_obj \<times> unit) stream" where
  "example_gen = sconst (const_matrix 1 1 5, Ndarray1 [0], ())"

definition example_model :: "unit bigmodel" where
  "example_model =
     (init_model example_gen)
       \<lparr>params := Some [0], sampleF := Some (const_matrix 1 1 5), samplelogprobs := Some [0],
        sample := Some ()\<rparr>"

definition example_prior :: "unit bigmodel" where
  "example_prior = example_model\<lparr>params := Some [3], samplelogprobs := Some [2],
     priorlogprobs := Some [7]\<rparr>"


section \<open>The importance weights (C1)\<close>

text \<open>C1. For a parameter vector \<open>\<theta>\<close> of length \<open>m\<close>, a feature matrix \<open>F\<close> of shape \<open>(m, n)\<close> and
  a log-auxiliary-density vector of length \<open>n\<close> of the active sample (the internal sample when
  the selector \<open>external\<close> is unset, else the external record at index \<open>e\<close>), the computation of
  the log importance weights, started with no cached vector, returns the vector whose entry
  \<open>j\<close> is \<open>\<theta>\<cdot>F[:,j] - logaux_j\<close>, with \<open>logprior_j\<close> added when a prior log-density was
  supplied for that sample; it stores that vector as the cache.\<close>

theorem logv_entries:
  assumes "logv s = None"
    and "active_sample s = Some (F, logaux, prior)"
    and "params s = Some th" and "length th = nrows F"
    and "length logaux = ncols F"
    and "case prior of None \<Rightarrow> True | Some pr \<Rightarrow> length pr = ncols F"
  shows "\<exists>lv. p_logv s = Inr (lv, s\<lparr>logv := Some lv\<rparr>) \<and> length lv = ncols F \<and>
    (\<forall>j<ncols F. lv ! j =
       inner th (col F j) - logaux ! j + (case prior of None \<Rightarrow> 0 | Some pr \<Rightarrow> pr ! j))"
proof -
  have "weights s = Inr (logv_spec th F logaux prior)"
    using assms(2-) by (rule weights_active)
  with assms(1) have "p_logv s = Inr (logv_spec th F logaux prior,
      s\<lparr>logv := Some (logv_spec th F logaux prior)\<rparr>)"
    by (rule p_logv_fresh)
  then show ?thesis
    by (intro exI [of _ "logv_spec th F logaux prior"]) (simp add: logv_spec_nth length_logv_spec)
qed

theorem logv_entries_witness:
  "\<exists>lv. p_logv example_prior = Inr (lv, example_prior\<lparr>logv := Some lv\<rparr>) \<and> length lv = 1 \<and>
     lv ! 0 = 20"
proof -
  have a: "active_sample example_prior = Some (const_matrix 1 1 5, [2], Some [7])"
    by (simp add: active_sample_def example_prior_def example_model_def init_model_def)
  have b: "logv example_prior = None" "params example_prior = Some [3]"
    by (simp_all add: example_prior_def example_model_def init_model_def)
  show ?thesis
    using logv_entries [OF b(1) a b(2)]
    by (simp add: const_matrix_def inner_def col_def)
qed

section \<open>The log partition function (C2)\<close>

lemma lognormconst_cached: "logZapprox s = Some z \<Longrightarrow> lognormconst s = Inr (z, s)"
  by (simp add: lognormconst_def)

lemma lognormconst_fresh:
  assumes "logZapprox s = None" and "p_logv s = Inr (lv, s1)" and "lv \<noteq> []"
  shows "lognormconst s =
    Inr (ln (\<Sum>v\<leftarrow>lv. exp v) - ln (real (length lv)),
         s1\<lparr>logZapprox := Some (ln (\<Sum>v\<leftarrow>lv. exp v) - ln (real (length lv)))\<rparr>)"
  using assms by (simp add: lognormconst_def bind_err_def logsumexp_def math_log_def)

lemma lognormconst_stores:
  assumes "lognormconst s = Inr (z, s1)"
  shows "logZapprox s1 = Some z \<and> params s1 = params s"
proof (cases "logZapprox s")
  case (Some z')
  with assms show ?thesis by (simp add: lognormconst_def)
next
  case None
  with assms show ?thesis
    by (auto simp: lognormconst_def bind_err_def p_logv_def
        split: sum.splits option.splits prod.splits)
qed

text \<open>C2. For a parameter vector \<open>\<theta>\<close>, a feature matrix \<open>F\<close> and a log-auxiliary-density vector of
  the active sample, with \<open>n > 0\<close> sample points, \<^verbatim>\<open>lognormconst()\<close> returns
  \<open>logsumexp(logv) - log(n)\<close>, where \<open>logv\<close> is the vector of the log importance weights; it
  stores the value and the weights as the cache. The call starts with no cached \<open>logZapprox\<close>,
  and with no cached \<open>logv\<close> or with these weights as the cached \<open>logv\<close> (a cached \<open>logZapprox\<close>
  is returned as it is, lemma \<open>lognormconst_cached\<close>).\<close>

theorem lognormconst_formula:
  assumes "logZapprox s = None"
    and "active_sample s = Some (F, logaux, prior)"
    and "params s = Some th" and "length th = nrows F"
    and "length logaux = ncols F"
    and "case prior of None \<Rightarrow> True | Some pr \<Rightarrow> length pr = ncols F"
    and "0 < ncols F"
    and "lv = map (\<lambda>j. inner th (col F j) - logaux ! j
                     + (case prior of None \<Rightarrow> 0 | Some pr \<Rightarrow> pr ! j)) [0..<ncols F]"
    and "logv s = None \<or> logv s = Some lv"
    and "z = ln (\<Sum>v\<leftarrow>lv. exp v) - ln (real (ncols F))"
  shows "lognormconst s = Inr (z, s\<lparr>logv := Some lv, logZapprox := Some z\<rparr>)"
proof -
  have lv: "lv = logv_spec th F logaux prior"
    using assms(8) by (simp add: logv_spec_def)
  have w: "weights s = Inr lv"
    unfolding lv using assms(2-6) by (rule weights_active)
  have p: "p_logv s = Inr (lv, s\<lparr>logv := Some lv\<rparr>)"
    using assms(9)
  proof
    assume "logv s = None"
    then show ?thesis using w by (rule p_logv_fresh)
  next
    assume c: "logv s = Some lv"
    then have "s\<lparr>logv := Some lv\<rparr> = s" by simp
    with c show ?thesis by (simp add: p_logv_cached)
  qed
  have ne: "lv \<noteq> []" and len: "length lv = ncols F"
    using assms(7) by (auto simp: lv logv_spec_def)
  show ?thesis
    using lognormconst_fresh [OF assms(1) p ne] by (simp add: len assms(10))
qed

theorem lognormconst_formula_witness:
  "lognormconst example_prior =
     Inr (20, example_prior\<lparr>logv := Some [20], logZapprox := Some 20\<rparr>)"
proof -
  have a: "active_sample example_prior = Some (const_matrix 1 1 5, [2], Some [7])"
    by (simp add: active_sample_def example_prior_def example_model_def init_model_def)
  have b: "logZapprox example_prior = None" "params example_prior = Some [3]"
     "logv example_prior = None \<or> logv example_prior = Some [20]"
    by (simp_all add: example_prior_def example_model_def init_model_def)
  show ?thesis
    using lognormconst_formula [OF b(1) a b(2), of "[20]" 20]  b(3)
    by (simp add: const_matrix_def inner_def col_def)
qed

section \<open>The consistency law of the density (C4)\<close>

text \<open>C4. For a one-dimensional feature vector \<open>fx\<close> (of the length of \<open>\<theta>\<close>) and with no prior
  log-density, \<open>logpdf(fx) + lognormconst() = \<theta>\<cdot>fx\<close>: \<^verbatim>\<open>logpdf\<close> returns a number \<open>lp\<close>, the call
  of \<^verbatim>\<open>lognormconst\<close> that follows returns the estimate \<open>z\<close> that \<^verbatim>\<open>logpdf\<close> used, and
  \<open>lp + z = \<theta>\<cdot>fx\<close>. The hypothesis is only that the log partition function can be estimated in
  the state at hand (\<^verbatim>\<open>lognormconst\<close> returns there), whichever sample or cache it comes
  from.\<close>

theorem logpdf_consistency:
  assumes "lognormconst s = Inr (z, s1)"
    and "params s = Some th"
    and "length fx = length th"
  shows "\<exists>lp. logpdf (Fx1 fx) None s = Inr (Scalar lp, s1) \<and>
              lognormconst s1 = Inr (z, s1) \<and>
              lp + z = inner th fx"
proof -
  from assms(1) have st: "logZapprox s1 = Some z" "params s1 = params s"
    using lognormconst_stores by blast+
  have "logpdf (Fx1 fx) None s = Inr (Scalar (inner th fx - z), s1)"
    using assms st by (simp add: logpdf_def bind_err_def attr_def np_dot_def)
  moreover have "lognormconst s1 = Inr (z, s1)"
    using st(1) by (rule lognormconst_cached)
  ultimately show ?thesis by (intro exI [of _ "inner th fx - z"]) simp
qed

theorem logpdf_consistency_witness:
  "\<exists>lp. logpdf (Fx1 [4]) None example_prior =
      Inr (Scalar lp, example_prior\<lparr>logv := Some [20], logZapprox := Some 20\<rparr>) \<and>
   lognormconst (example_prior\<lparr>logv := Some [20], logZapprox := Some 20\<rparr>) =
      Inr (20, example_prior\<lparr>logv := Some [20], logZapprox := Some 20\<rparr>) \<and>
   lp + 20 = 12"
proof -
  have w: "weights example_prior = Inr [20]"
    by (simp add: weights_def example_prior_def example_model_def init_model_def attr_def
        bind_err_def innerprodtranspose_def broadcast_def iadd_def const_matrix_def inner_def
        col_def)
  have n0: "logv example_prior = None" "logZapprox example_prior = None"
    by (simp_all add: example_prior_def example_model_def init_model_def)
  have p: "p_logv example_prior = Inr ([20], example_prior\<lparr>logv := Some [20]\<rparr>)"
    using n0(1) w by (rule p_logv_fresh)
  have a: "lognormconst example_prior =
      Inr (20, example_prior\<lparr>logv := Some [20], logZapprox := Some 20\<rparr>)"
    using lognormconst_fresh [OF n0(2) p] by simp
  have b: "params example_prior = Some [3]"
    by (simp add: example_prior_def example_model_def init_model_def)
  show ?thesis
    using logpdf_consistency [OF a b, of "[4]"] by (simp add: inner_def)
qed

section \<open>The checks of resample (C8)\<close>

lemma resample_unfold:
  assumes "samplegen s = Some g" and "shd g = (F, lp, xs)"
  shows "resample s =
    bind_err
      (case params s of
         None \<Rightarrow> Inr (s\<lparr>samplegen := Some (stl g), sampleF := Some F, sample := Some xs,
                        params := Some (replicate (nrows F) 0)\<rparr>)
       | Some th \<Rightarrow>
           (if nrows F \<noteq> length th then Inl (ValueError msg_rows)
            else Inr (s\<lparr>samplegen := Some (stl g), sampleF := Some F, sample := Some xs\<rparr>)))
      (\<lambda>s2. case lp of
          Ndarray1 d \<Rightarrow>
            (if length d = ncols F then Inr (clearcache (s2\<lparr>samplelogprobs := Some d\<rparr>))
             else Inl (ValueError msg_logprobs))
        | NdarrayOther \<Rightarrow> Inl (ValueError msg_logprobs)
        | NotNdarray \<Rightarrow> Inl (ValueError msg_logprobs))"
  using assms
  by (cases "params s"; cases lp) (simp_all add: resample_def bind_err_def attr_def Let_def)

text \<open>The check of the log-probabilities: a numpy array of shape \<open>(n,)\<close>.\<close>

definition logprobs_ok :: "logprobs_obj \<Rightarrow> nat \<Rightarrow> bool" where
  "logprobs_ok lp n = (case lp of Ndarray1 d \<Rightarrow> length d = n | _ \<Rightarrow> False)"

definition example_fresh :: "unit bigmodel" where
  "example_fresh = init_model (sconst (const_matrix 2 3 1, Ndarray1 [0, 0, 0], ()))"

definition example_badlp :: "unit bigmodel" where
  "example_badlp = init_model (sconst (const_matrix 2 3 1, Ndarray1 [0, 0], ()))"

text \<open>C8. \<^verbatim>\<open>resample()\<close>, on the triple \<open>(F, lp, xs)\<close> that the generator yields next:
  when the parameters were not set (and the log-probabilities pass their check), it returns
  with the parameters set to the zero vector of length the number of rows of \<open>F\<close>; when the
  parameters are set and their length is not the number of rows of \<open>F\<close>, it fails with the
  \<^verbatim>\<open>ValueError\<close> of the row check (the spec's \<open>DimensionMismatchError\<close>); when the row check
  passes and the log-probabilities are not a one-dimensional array of length the number of
  columns of \<open>F\<close>, it fails with the \<^verbatim>\<open>ValueError\<close> of the log-probability check (the spec's
  \<open>ShapeError\<close>). The two errors differ by their messages.\<close>

theorem resample_checks:
  assumes "samplegen s = Some g" and "shd g = (F, lp, xs)"
  shows "(params s = None \<and> logprobs_ok lp (ncols F) \<longrightarrow>
            (\<exists>s'. resample s = Inr s' \<and> params s' = Some (replicate (nrows F) 0))) \<and>
         (\<forall>th. params s = Some th \<and> nrows F \<noteq> length th \<longrightarrow>
            resample s = Inl (ValueError msg_rows)) \<and>
         ((params s = None \<or> (\<exists>th. params s = Some th \<and> nrows F = length th)) \<and>
            \<not> logprobs_ok lp (ncols F) \<longrightarrow>
            resample s = Inl (ValueError msg_logprobs)) \<and>
         msg_rows \<noteq> msg_logprobs"
proof -
  note u = resample_unfold [OF assms]
  have 1: "params s = None \<and> logprobs_ok lp (ncols F) \<longrightarrow>
            (\<exists>s'. resample s = Inr s' \<and> params s' = Some (replicate (nrows F) 0))"
    by (cases lp) (auto simp: u bind_err_def logprobs_ok_def clearcache_def)
  have 2: "\<forall>th. params s = Some th \<and> nrows F \<noteq> length th \<longrightarrow>
            resample s = Inl (ValueError msg_rows)"
    by (auto simp: u bind_err_def)
  have 3: "(params s = None \<or> (\<exists>th. params s = Some th \<and> nrows F = length th)) \<and>
            \<not> logprobs_ok lp (ncols F) \<longrightarrow> resample s = Inl (ValueError msg_logprobs)"
    by (cases lp) (auto simp: u bind_err_def logprobs_ok_def)
  have 4: "msg_rows \<noteq> msg_logprobs"
    by (simp add: msg_rows_def msg_logprobs_def)
  from 1 2 3 4 show ?thesis by blast
qed

theorem resample_checks_witness:
  "(\<exists>s'. resample example_fresh = Inr s' \<and> params s' = Some [0, 0]) \<and>
   resample (example_fresh\<lparr>params := Some [1, 2, 3]\<rparr>) = Inl (ValueError msg_rows) \<and>
   resample (example_badlp\<lparr>params := Some [1, 2, 3]\<rparr>) = Inl (ValueError msg_rows) \<and>
   resample example_badlp = Inl (ValueError msg_logprobs) \<and>
   resample (example_badlp\<lparr>params := Some [1, 2]\<rparr>) = Inl (ValueError msg_logprobs) \<and>
   msg_rows \<noteq> msg_logprobs"
proof -
  have g1: "samplegen example_fresh = Some (sconst (const_matrix 2 3 1, Ndarray1 [0, 0, 0], ()))"
    "samplegen (example_fresh\<lparr>params := Some [1, 2, 3]\<rparr>) =
        Some (sconst (const_matrix 2 3 1, Ndarray1 [0, 0, 0], ()))"
    by (simp_all add: example_fresh_def init_model_def)
  have g2: "samplegen example_badlp = Some (sconst (const_matrix 2 3 1, Ndarray1 [0, 0], ()))"
    "samplegen (example_badlp\<lparr>params := Some [1, 2, 3]\<rparr>) =
        Some (sconst (const_matrix 2 3 1, Ndarray1 [0, 0], ()))"
    "samplegen (example_badlp\<lparr>params := Some [1, 2]\<rparr>) =
        Some (sconst (const_matrix 2 3 1, Ndarray1 [0, 0], ()))"
    by (simp_all add: example_badlp_def init_model_def)
  have h1: "shd (sconst (const_matrix 2 3 1, Ndarray1 [0, 0, 0], ())) =
      (const_matrix 2 3 1, Ndarray1 [0, 0, 0], ())"
    and h2: "shd (sconst (const_matrix 2 3 1, Ndarray1 [0, 0], ())) =
      (const_matrix 2 3 1, Ndarray1 [0, 0], ())"
    by simp_all
  have p: "params example_fresh = None" "params example_badlp = None"
    by (simp_all add: example_fresh_def example_badlp_def init_model_def)
  have ok: "logprobs_ok (Ndarray1 [0, 0, 0]) (ncols (const_matrix 2 3 1))"
    "\<not> logprobs_ok (Ndarray1 [0, 0]) (ncols (const_matrix 2 3 1))"
    "nrows (const_matrix 2 3 1) = 2"
    by (simp_all add: logprobs_ok_def const_matrix_def)
  have r: "replicate 2 (0::real) = [0, 0]"
    by (simp add: numeral_2_eq_2)
  show ?thesis
    using resample_checks [OF g1(1) h1] resample_checks [OF g1(2) h1]
      resample_checks [OF g2(1) h2] resample_checks [OF g2(2) h2] resample_checks [OF g2(3) h2]
      p ok r
    by simp
qed

section \<open>The aggregation of the trials (C3)\<close>

text \<open>The spec's per-trial estimate \<open>\<mu>_t = F \<cdot> exp(logv - logZ_t) / n\<close>, entry by entry.\<close>

definition mu_spec :: "matrix \<Rightarrow> vec \<Rightarrow> real \<Rightarrow> vec" where
  "mu_spec F lv logZ =
     map (\<lambda>i. (\<Sum>j\<leftarrow>[0..<ncols F]. entry F i j * exp (lv ! j - logZ)) / real (ncols F))
       [0..<nrows F]"

lemma inner_row:
  "length v = ncols F \<Longrightarrow> inner (row F i) v = (\<Sum>j\<leftarrow>[0..<ncols F]. entry F i j * v ! j)"
proof -
  assume a: "length v = ncols F"
  have "map2 (*) (row F i) v = map (\<lambda>j. entry F i j * v ! j) [0..<ncols F]"
    using a by (simp add: row_def map2_upt)
  then show ?thesis by (simp add: inner_def)
qed

lemma mat_dot_weights:
  assumes "length lv = ncols F"
  shows "mat_dot F (map (\<lambda>v. exp (v - z)) lv) =
     Inr (map (\<lambda>i. \<Sum>j\<leftarrow>[0..<ncols F]. entry F i j * exp (lv ! j - z)) [0..<nrows F])"
proof -
  have "\<And>i. inner (row F i) (map (\<lambda>v. exp (v - z)) lv) =
      (\<Sum>j\<leftarrow>[0..<ncols F]. entry F i j * exp (lv ! j - z))"
  proof -
    fix i
    have "inner (row F i) (map (\<lambda>v. exp (v - z)) lv) =
        (\<Sum>j\<leftarrow>[0..<ncols F]. entry F i j * (map (\<lambda>v. exp (v - z)) lv) ! j)"
      using assms by (simp add: inner_row)
    also have "\<dots> = (\<Sum>j\<leftarrow>[0..<ncols F]. entry F i j * exp (lv ! j - z))"
      using assms by (intro arg_cong [where f = sum_list] map_cong) simp_all
    finally show "inner (row F i) (map (\<lambda>v. exp (v - z)) lv) =
        (\<Sum>j\<leftarrow>[0..<ncols F]. entry F i j * exp (lv ! j - z))" .
  qed
  then show ?thesis using assms by (simp add: mat_dot_def)
qed

lemma active_F_cache [simp]:
  "active_F (s\<lparr>logv := a\<rparr>) = active_F s"
  "active_F (s\<lparr>logZapprox := b\<rparr>) = active_F s"
  "active_F (s\<lparr>mu := c\<rparr>) = active_F s"
  "active_F (s\<lparr>varE := d\<rparr>) = active_F s"
  by (simp_all add: active_F_def cong: option.case_cong)

lemma p_logv_logv: "p_logv s = Inr (lv, s') \<Longrightarrow> logv s' = Some lv \<and> active_F s' = active_F s"
  by (cases "logv s")
    (auto simp: p_logv_def bind_err_def split: sum.splits)

lemma lognormconst_keeps:
  assumes "lognormconst s = Inr (z, s')" and "logv s = Some lv"
  shows "logv s' = Some lv \<and> logZapprox s' = Some z \<and> active_F s' = active_F s"
proof (cases "logZapprox s")
  case (Some z')
  with assms show ?thesis by (simp add: lognormconst_def)
next
  case None
  with assms show ?thesis
    by (auto simp: lognormconst_def bind_err_def p_logv_def split: sum.splits)
qed

lemma trial_result:
  assumes "trial s = Inr ((m, z), s')"
  shows "\<exists>F lv. active_F s' = Inr F \<and> logv s' = Some lv \<and> logZapprox s' = Some z \<and>
           length lv = ncols F \<and> 0 < ncols F \<and> m = mu_spec F lv z"
proof -
  from assms obtain s1 lv s2 F av where
      p: "p_logv s1 = Inr (lv, s2)" and l: "lognormconst s2 = Inr (z, s')"
      and f: "active_F s' = Inr F" and d: "mat_dot F (map (\<lambda>v. exp (v - z)) lv) = Inr av"
      and n: "length lv \<noteq> 0" and m: "m = map (\<lambda>x. x / real (length lv)) av"
    by (auto simp: trial_def bind_err_def split: sum.splits if_splits)
  from p have c: "logv s2 = Some lv" using p_logv_logv by blast
  from lognormconst_keeps [OF l c] have k: "logv s' = Some lv" "logZapprox s' = Some z"
    by simp_all
  from d have len: "length lv = ncols F"
    by (simp add: mat_dot_def split: if_splits)
  with d have "av = map (\<lambda>i. \<Sum>j\<leftarrow>[0..<ncols F]. entry F i j * exp (lv ! j - z)) [0..<nrows F]"
    by (simp add: mat_dot_weights)
  with m len have "m = mu_spec F lv z"
    by (simp add: mu_spec_def)
  with f k len n show ?thesis by auto
qed


lemma trials_length: "trials T s = Inr (rs, s1) \<Longrightarrow> length rs = T"
  by (induction T arbitrary: s rs s1)
    (auto simp: bind_err_def split: sum.splits prod.splits)

lemma aggregate_single:
  "aggregate [r] s = Inr (s\<lparr>mu := Some (fst r), logZapprox := Some (snd r), varE := None\<rparr>)"
  by (simp add: aggregate_def)


lemma aggregate_many:
  assumes "1 < length rs"
  shows "aggregate rs s = Inl (NameError ''columnvariances'')"
proof -
  from assms have "rs \<noteq> []" by auto
  with assms show ?thesis
    by (simp add: aggregate_def bind_err_def logsumexp_def math_log_def global_name_def Let_def)
qed

text \<open>With one trial the stored values are those of the trial; with more than one the
  call ends in the \<^verbatim>\<open>NameError\<close>.\<close>

lemma estimate_one_trial:
  assumes "matrixtrials s = 1" and "trial s = Inr ((m, z), s1)"
  shows "estimate s = Inr (s1\<lparr>mu := Some m, logZapprox := Some z, varE := None\<rparr>)"
  using assms by (simp add: estimate_def bind_err_def aggregate_single)

lemma estimate_many_trials:
  assumes "1 < matrixtrials s" and "trials (nat (matrixtrials s)) s = Inr (rs, s1)"
  shows "estimate s = Inl (NameError ''columnvariances'')"
proof -
  from trials_length [OF assms(2)] assms(1) have "1 < length rs" by simp
  from aggregate_many [OF this] assms(2) show ?thesis
    by (simp add: estimate_def bind_err_def)
qed

lemma trial_eval:
  assumes "(if \<not> staticsample s \<or> 1 < matrixtrials s then resample s else Inr s) = Inr s1"
    and "logv s1 = None" and "logZapprox s1 = None"
    and "weights s1 = Inr lv" and "lv \<noteq> []"
    and "active_F s1 = Inr F" and "length lv = ncols F"
    and "z = ln (\<Sum>v\<leftarrow>lv. exp v) - ln (real (length lv))"
  shows "trial s = Inr ((mu_spec F lv z, z), s1\<lparr>logv := Some lv, logZapprox := Some z\<rparr>)"
proof -
  have p: "p_logv s1 = Inr (lv, s1\<lparr>logv := Some lv\<rparr>)"
    using assms(2,4) by (rule p_logv_fresh)
  have "p_logv (s1\<lparr>logv := Some lv\<rparr>) = Inr (lv, s1\<lparr>logv := Some lv\<rparr>)"
    by (simp add: p_logv_cached)
  then have l: "lognormconst (s1\<lparr>logv := Some lv\<rparr>) =
      Inr (z, s1\<lparr>logv := Some lv, logZapprox := Some z\<rparr>)"
    using lognormconst_fresh [of "s1\<lparr>logv := Some lv\<rparr>" lv "s1\<lparr>logv := Some lv\<rparr>"] assms(3,5,8)
    by simp
  have d: "mat_dot F (map (\<lambda>v. exp (v - z)) lv) =
     Inr (map (\<lambda>i. \<Sum>j\<leftarrow>[0..<ncols F]. entry F i j * exp (lv ! j - z)) [0..<nrows F])"
    using assms(7) by (rule mat_dot_weights)
  show ?thesis
    using assms(1,5,6,7) p l d
    by (simp add: trial_def bind_err_def mu_spec_def)
qed

text \<open>A generator whose successive feature matrices differ, and a model that runs two
  trials on it.\<close>

primcorec gen_from :: "real \<Rightarrow> (matrix \<times> logprobs_obj \<times> unit) stream" where
  "gen_from c = (const_matrix 1 1 c, Ndarray1 [0], ()) ## gen_from (c + 2)"

definition example_two :: "unit bigmodel" where
  "example_two = (init_model (gen_from 5))\<lparr>params := Some [0], matrixtrials := 2\<rparr>"

definition drawn :: "real \<Rightarrow> unit bigmodel \<Rightarrow> unit bigmodel" where
  "drawn c s = clearcache (s\<lparr>samplegen := Some (gen_from (c + 2)),
     sampleF := Some (const_matrix 1 1 c), sample := Some (), samplelogprobs := Some [0]\<rparr>)"

lemma resample_gen_from:
  assumes "samplegen s = Some (gen_from c)" and "params s = Some [th]"
  shows "resample s = Inr (drawn c s)"
  using resample_unfold [OF assms(1), of "const_matrix 1 1 c" "Ndarray1 [0]" "()"] assms(2)
  by (simp add: bind_err_def const_matrix_def drawn_def)

lemma trial_gen_from:
  assumes "samplegen s = Some (gen_from c)" and "params s = Some [th]"
    and "\<not> staticsample s \<or> 1 < matrixtrials s"
    and "external s = None" and "priorlogprobs s = None"
  shows "trial s =
    Inr (([c], th * c), (drawn c s)\<lparr>logv := Some [th * c], logZapprox := Some (th * c)\<rparr>)"
proof -
  have r: "(if \<not> staticsample s \<or> 1 < matrixtrials s then resample s else Inr s)
      = Inr (drawn c s)"
    using assms(3) resample_gen_from [OF assms(1,2)] by simp
  have w: "weights (drawn c s) = Inr [th * c]"
    using assms(2,4,5)
    by (simp add: weights_def drawn_def clearcache_def attr_def bind_err_def
        innerprodtranspose_def broadcast_def const_matrix_def inner_def col_def)
  have f: "active_F (drawn c s) = Inr (const_matrix 1 1 c)"
    using assms(4) by (simp add: active_F_def drawn_def clearcache_def attr_def)
  have "trial s = Inr ((mu_spec (const_matrix 1 1 c) [th * c] (th * c), th * c),
      (drawn c s)\<lparr>logv := Some [th * c], logZapprox := Some (th * c)\<rparr>)"
    by (rule trial_eval [OF r _ _ w _ f]) (simp_all add: drawn_def clearcache_def const_matrix_def)
  then show ?thesis
    by (simp add: mu_spec_def const_matrix_def)
qed

text \<open>C3. \<^verbatim>\<open>estimate()\<close> on a model with trial count \<open>T = 2\<close>, one parameter \<open>\<theta> = [0]\<close> and a
  sampler that hands over the one-point samples with feature matrices \<open>[[5]]\<close>, \<open>[[7]]\<close>: both
  trials run (their estimates are \<open>\<mu>_1 = [5]\<close>, \<open>\<mu>_2 = [7]\<close>, \<open>logZ_1 = logZ_2 = 0\<close>), and the
  call then raises \<^verbatim>\<open>NameError\<close> at \<^verbatim>\<open>self.varE = columnvariances(mus)\<close>: neither \<open>varE\<close> nor
  \<open>\<mu>\<close> is stored. (With \<open>T = 1\<close> the stored values are those of the one trial, lemma
  \<open>estimate_one_trial\<close>, each trial's estimate being \<open>F \<cdot> exp(logv - logZ_t) / n\<close>, lemma
  \<open>trial_result\<close>; with any \<open>T > 1\<close> the call ends as here, lemma \<open>estimate_many_trials\<close>.)\<close>

theorem estimate_two_trials_raises:
  "trials 2 example_two =
     Inr ([([5], 0), ([7], 0)],
          (drawn 7 ((drawn 5 example_two)\<lparr>logv := Some [0], logZapprox := Some 0\<rparr>))
            \<lparr>logv := Some [0], logZapprox := Some 0\<rparr>) \<and>
   estimate example_two = Inl (NameError ''columnvariances'')"
proof -
  let ?b = "(drawn 5 example_two)\<lparr>logv := Some [0], logZapprox := Some 0\<rparr>"
  let ?c = "(drawn 7 ?b)\<lparr>logv := Some [0], logZapprox := Some 0\<rparr>"
  have t2: "trial example_two = Inr (([5], 0), ?b)"
    using trial_gen_from [of example_two 5 0] by (simp add: example_two_def init_model_def)
  have t3: "trial ?b = Inr (([7], 0), ?c)"
    using trial_gen_from [of ?b 7 0]
    by (simp add: drawn_def clearcache_def example_two_def init_model_def)
  have m2: "nat (matrixtrials example_two) = 2" "1 < matrixtrials example_two"
    by (simp_all add: example_two_def init_model_def)
  have r2: "trials 2 example_two = Inr ([([5], 0), ([7], 0)], ?c)"
    using t2 t3 by (simp add: numeral_2_eq_2 bind_err_def)
  from r2 m2(1) have "trials (nat (matrixtrials example_two)) example_two =
      Inr ([([5], 0), ([7], 0)], ?c)"
    by simp
  from estimate_many_trials [OF m2(2) this] r2 show ?thesis
    by simp
qed

section \<open>What the estimator leaves alone\<close>












section \<open>Stochastic approximation\<close>

text \<open>The local variables of \<^verbatim>\<open>stochapprox\<close> that live across iterations of its loop: the
  counter \<open>k\<close>, the step size \<open>a_k\<close>, the decay index \<open>n\<close>, the gradient estimates \<open>y_k\<close> and
  \<open>y_kminus1\<close>, the running average \<open>avgparams\<close> and the raw update \<open>newparams\<close>. A variable
  that has not been assigned yet is \<open>None\<close>; reading it raises \<^verbatim>\<open>UnboundLocalError\<close>, a
  \<^verbatim>\<open>NameError\<close>.\<close>

record sa_locals =
  sa_k :: int
  a_k :: real
  sa_n :: "int option"
  y_k :: "vec option"
  y_kminus1 :: "vec option"
  avgparams :: vec
  newparams :: "vec option"

definition local_var :: "string \<Rightarrow> 'a option \<Rightarrow> error + 'a" where
  "local_var name v = (case v of None \<Rightarrow> Inl (NameError name) | Some x \<Rightarrow> Inr x)"

text \<open>\<^verbatim>\<open>n ** p\<close> for an integer \<open>n\<close> and a float \<open>p\<close>, and the division of floats. A negative
  base gives a complex number in Python, which the model has not: it stops there (the loop
  never has \<open>n < 1\<close>).\<close>

definition py_pow :: "int \<Rightarrow> real \<Rightarrow> error + real" where
  "py_pow n p =
     (if 0 < n then Inr (real_of_int n powr p)
      else if n = 0 then (if p < 0 then Inl ZeroDivisionError else if p = 0 then Inr 1 else Inr 0)
      else Inl (ValueError ''complex result''))"

definition py_div :: "real \<Rightarrow> real \<Rightarrow> error + real" where
  "py_div a b = (if b = 0 then Inl ZeroDivisionError else Inr (a / b))"

text \<open>\<^verbatim>\<open>self.nosignswitch.append(k)\<close>, or \<^verbatim>\<open>self.nosignswitch = [k]\<close> when there is no list.\<close>

definition no_sign_switch :: "int \<Rightarrow> 'x bigmodel \<Rightarrow> 'x bigmodel" where
  "no_sign_switch k s =
     s\<lparr>nosignswitch := Some (case nosignswitch s of None \<Rightarrow> [k] | Some ks \<Rightarrow> ks @ [k])\<rparr>"

text \<open>The decay index \<open>n\<close> of an iteration \<open>k > a_0_hold\<close>.\<close>

definition decay_index ::
  "sa_locals \<Rightarrow> int \<Rightarrow> 'x bigmodel \<Rightarrow> error + (int option \<times> 'x bigmodel)" where
  "decay_index l k s =
     (if \<not> deylon s then Inr (Some (k - a_0_hold s), s)
      else if k \<le> 2 + a_0_hold s then Inr (Some (k - a_0_hold s), s)
      else
        bind_err (local_var ''y_k'' (y_k l)) (\<lambda>y.
        bind_err (local_var ''y_kminus1'' (y_kminus1 l)) (\<lambda>y'.
        bind_err (np_dot y y') (\<lambda>d.
          if d < 0 then bind_err (local_var ''n'' (sa_n l)) (\<lambda>n. Inr (Some (n + 1), s))
          else Inr (sa_n l, no_sign_switch k s)))))"

text \<open>The step size \<open>a_k\<close> from the decay index.\<close>

definition decreasing :: "int option \<Rightarrow> real \<Rightarrow> 'x bigmodel \<Rightarrow> error + real" where
  "decreasing n p s =
     bind_err (attr ''a_0'' (a_0 s)) (\<lambda>a0.
     bind_err (local_var ''n'' n) (\<lambda>n.
     bind_err (py_pow n p) (\<lambda>d. py_div (1.0 * a0) d)))"

definition step_size :: "int option \<Rightarrow> 'x bigmodel \<Rightarrow> error + real" where
  "step_size n s =
     (if ruppertaverage s then
        (case stepdecreaserate s of
           None \<Rightarrow>
             bind_err (attr ''a_0'' (a_0 s)) (\<lambda>a0.
             bind_err (local_var ''n'' n) (\<lambda>n.
             bind_err (math_log (real_of_int n)) (\<lambda>ln_n.
             py_div (1.0 * a0 * ln_n) (real_of_int n))))
         | Some p \<Rightarrow> decreasing n p s)
      else
        (case stepdecreaserate s of
           None \<Rightarrow>
             bind_err (attr ''a_0'' (a_0 s)) (\<lambda>a0.
             bind_err (local_var ''n'' n) (\<lambda>n. Inl TypeError))
         | Some p \<Rightarrow> decreasing n p s))"

text \<open>The gradient estimate \<open>y_k\<close> of an iteration, with the new value of \<open>y_kminus1\<close>
  (which only the standard branch assigns). The scaling of Andradottir divides by
  \<^verbatim>\<open>max(1.0, norm(y_k_2))\<close>: after the two estimates that branch looks up \<^verbatim>\<open>norm\<close> (the bound variable
  \<open>py_norm\<close>).\<close>

definition gradient ::
  "vec \<Rightarrow> sa_locals \<Rightarrow> 'x bigmodel \<Rightarrow> error + ((vec \<times> vec option) \<times> 'x bigmodel)" where
  "gradient K l s =
     (if andradottir s then
        bind_err (estimate s) (\<lambda>s1.
        bind_err (attr ''mu'' (mu s1)) (\<lambda>m1.
        bind_err (broadcast (-) m1 K) (\<lambda>y_k_1.
        bind_err (estimate s1) (\<lambda>s2.
        bind_err (attr ''mu'' (mu s2)) (\<lambda>m2.
        bind_err (broadcast (-) m2 K) (\<lambda>y_k_2.
        bind_err (global_name ''norm'') (\<lambda>py_norm.
        bind_err (broadcast (+) (map (\<lambda>x. x / max 1.0 (py_norm y_k_2)) y_k_1)
                                (map (\<lambda>x. x / max 1.0 (py_norm y_k_1)) y_k_2)) (\<lambda>y.
          Inr ((y, y_kminus1 l), s2)))))))))
      else
        bind_err (if \<not> staticsample s then estimate s else Inr s) (\<lambda>s1.
        bind_err (attr ''mu'' (mu s1)) (\<lambda>m.
        bind_err (broadcast (-) m K) (\<lambda>y.
          Inr ((y, (case y_k l of None \<Rightarrow> y_kminus1 l | Some y0 \<Rightarrow> Some y0)), s1)))))"

text \<open>The update of the parameters: it returns the new values of the locals \<open>newparams\<close> and
  \<open>avgparams\<close>.\<close>

definition update ::
  "int \<Rightarrow> real \<Rightarrow> vec \<Rightarrow> sa_locals \<Rightarrow> 'x bigmodel \<Rightarrow>
     error + ((vec option \<times> vec) \<times> 'x bigmodel)" where
  "update k a y l s =
     (if ruppertaverage s then
        bind_err (attr ''params'' (params s)) (\<lambda>th.
        bind_err (broadcast (-) th (map (\<lambda>x. a * x) y)) (\<lambda>newp.
          if k = 0 then Inl ZeroDivisionError
          else
            bind_err (broadcast (+)
                (map (\<lambda>x. (real_of_int k - 1.0) / real_of_int k * x) (avgparams l))
                (map (\<lambda>x. 1.0 / real_of_int k * x) newp)) (\<lambda>avg.
              Inr ((Some newp, avg), setparams avg s))))
      else
        bind_err (attr ''params'' (params s)) (\<lambda>th.
        bind_err (broadcast (-) th (map (\<lambda>x. a * x) y)) (\<lambda>p.
          Inr ((newparams l, avgparams l), setparams p s))))"

text \<open>The block under \<^verbatim>\<open>if k > self.a_0_hold\<close>: the decay index and the step size of
  iteration \<open>k\<close>; up to the hold count both stay as they are.\<close>

definition schedule ::
  "sa_locals \<Rightarrow> int \<Rightarrow> 'x bigmodel \<Rightarrow> error + ((int option \<times> real) \<times> 'x bigmodel)" where
  "schedule l k s =
     (if k > a_0_hold s then
        bind_err (decay_index l k s) (\<lambda>(n, s0).
        bind_err (step_size n s0) (\<lambda>a. Inr ((n, a), s0)))
      else Inr ((sa_n l, a_k l), s))"

text \<open>An exception that leaves \<^verbatim>\<open>stochapprox\<close>, with the object as the caller finds it. The
  methods work on the object in place, so what has been written before a raise stays written.
  The model follows the object up to the raises of the body of \<^verbatim>\<open>stochapprox\<close> that it names
  below; for an exception that comes out of the schedule block, of \<^verbatim>\<open>estimate\<close> or of the
  update it says nothing about the object (\<open>None\<close>).\<close>

type_synonym 'x raised = "error \<times> 'x bigmodel option"

text \<open>A pass of the \<^verbatim>\<open>while True\<close> loop up to the gradient estimate: the counter, the
  schedule, the two forced settings and \<open>y_k\<close>.\<close>

definition sa_head ::
  "vec \<Rightarrow> sa_locals \<times> 'x bigmodel \<Rightarrow>
     error + ((int \<times> int option \<times> real \<times> vec \<times> vec option) \<times> 'x bigmodel)" where
  "sa_head K ls =
     (case ls of (l, s) \<Rightarrow>
        (let k = sa_k l + 1 in
         bind_err (schedule l k s) (\<lambda>((n, a), s0).
         bind_err (gradient K l (s0\<lparr>matrixtrials := 1, staticsample := False\<rparr>)) (\<lambda>((y, ykm), s1).
           Inr ((k, n, a, y, ykm), s1)))))"

text \<open>One pass of the loop, up to its exit test. After the gradient estimate comes
  \<^verbatim>\<open>norm_y_k = norm(y_k)\<close>, outside every \<^verbatim>\<open>if\<close>: the lookup of \<^verbatim>\<open>norm\<close> raises, with the
  object as the estimate has left it. The update of the parameters comes after it.\<close>

definition sa_body ::
  "vec \<Rightarrow> sa_locals \<times> 'x bigmodel \<Rightarrow> 'x raised + (sa_locals \<times> 'x bigmodel)" where
  "sa_body K ls =
     (case sa_head K ls of
        Inl e \<Rightarrow> Inl (e, None)
      | Inr ((k, n, a, y, ykm), s1) \<Rightarrow>
          (case (global_name ''norm'' :: error + (vec \<Rightarrow> real)) of
             Inl e \<Rightarrow> Inl (e, Some s1)
           | Inr py_norm \<Rightarrow>
               (let norm_y_k = py_norm y in
                (case update k a y (fst ls) s1 of
                   Inl e \<Rightarrow> Inl (e, None)
                 | Inr ((newp, avg), s2) \<Rightarrow>
                     Inr (\<lparr>sa_k = k, a_k = a, sa_n = n, y_k = Some y, y_kminus1 = ykm,
                           avgparams = avg, newparams = newp\<rparr>, s2)))))"

lemma setparams_settings:
  "maxiter (setparams th s) = maxiter s" "matrixtrials (setparams th s) = matrixtrials s"
  "staticsample (setparams th s) = staticsample s" "params (setparams th s) = Some th"
  "a_0_hold (setparams th s) = a_0_hold s" "a_0 (setparams th s) = a_0 s"
  "deylon (setparams th s) = deylon s" "stepdecreaserate (setparams th s) = stepdecreaserate s"
  "ruppertaverage (setparams th s) = ruppertaverage s"
  "andradottir (setparams th s) = andradottir s"
  "nosignswitch (setparams th s) = nosignswitch s"
  by (simp_all add: setparams_def clearcache_def)


text \<open>No pass of the loop comes to its end.\<close>

lemma sa_body_at_norm:
  assumes "sa_head K ls = Inr (h, s1)"
  shows "sa_body K ls = Inl (NameError ''norm'', Some s1)"
  using assms by (cases h) (simp add: sa_body_def global_name_def)

lemma sa_body_raises: "\<exists>r. sa_body K ls = Inl r"
proof (cases "sa_head K ls")
  case (Inl e)
  then show ?thesis by (simp add: sa_body_def)
next
  case (Inr hs)
  then obtain h s1 where "sa_head K ls = Inr (h, s1)" by (cases hs) simp
  from sa_body_at_norm [OF this] show ?thesis by blast
qed

text \<open>The loop: it leaves once \<open>k \<ge> maxiter\<close>, after at least one pass.\<close>

function sa_loop ::
  "vec \<Rightarrow> sa_locals \<times> 'x bigmodel \<Rightarrow> 'x raised + (sa_locals \<times> 'x bigmodel)" where
  "sa_loop K ls =
     (case sa_body K ls of
        Inl r \<Rightarrow> Inl r
      | Inr ls' \<Rightarrow> if sa_k (fst ls') \<ge> maxiter (snd ls') then Inr ls' else sa_loop K ls')"
  by pat_completeness auto
termination
proof (relation "measure (\<lambda>(K, ls). nat (maxiter (snd ls) - sa_k (fst ls)))")
  show "wf (measure (\<lambda>(K, ls). nat (maxiter (snd ls) - sa_k (fst ls))))"
    by simp
next
  fix K :: vec and ls ls' :: "sa_locals \<times> 'x bigmodel"
  assume b: "sa_body K ls = Inr ls'" and c: "\<not> maxiter (snd ls') \<le> sa_k (fst ls')"
  from sa_body_raises [of K ls] b
  show "((K, ls'), (K, ls)) \<in> measure (\<lambda>(K, ls). nat (maxiter (snd ls) - sa_k (fst ls)))"
    by simp
qed

declare sa_loop.simps [simp del]

text \<open>\<^verbatim>\<open>stochapprox(K)\<close>. Before the loop: the counter \<open>k\<close> resumes from
  \<^verbatim>\<open>self.paramslogcounter\<close> when there is one, the step size starts at \<^verbatim>\<open>self.a_0\<close> (which
  must have been set), and the running average starts at the parameters. Nothing has been
  written to the object when one of these reads raises. The method returns nothing; the
  model returns the object as the loop leaves it.\<close>

definition sa_init :: "'x bigmodel \<Rightarrow> error + (sa_locals \<times> 'x bigmodel)" where
  "sa_init s =
     (let k = (case paramslogcounter s of None \<Rightarrow> 0 | Some c \<Rightarrow> c) in
      bind_err
        (case a_0 s of
           None \<Rightarrow> Inl (AttributeError ''first define the initial step size a_0'')
         | Some a \<Rightarrow> Inr a) (\<lambda>a.
      bind_err (attr ''params'' (params s)) (\<lambda>th.
        Inr (\<lparr>sa_k = k, a_k = a, sa_n = None, y_k = None, y_kminus1 = None, avgparams = th,
              newparams = None\<rparr>,
             if exacttest s then s\<lparr>SAerror := Some []\<rparr> else s))))"

definition stochapprox :: "vec \<Rightarrow> 'x bigmodel \<Rightarrow> 'x raised + 'x bigmodel" where
  "stochapprox K s =
     (case sa_init s of
        Inl e \<Rightarrow> Inl (e, Some s)
      | Inr ls \<Rightarrow> (case sa_loop K ls of Inl r \<Rightarrow> Inl r | Inr (l, s') \<Rightarrow> Inr s'))"

text \<open>How a call ended, and the object after it (where the model follows it).\<close>

definition exit_error :: "'x raised + 'x bigmodel \<Rightarrow> error option" where
  "exit_error r = (case r of Inl (e, obj) \<Rightarrow> Some e | Inr s \<Rightarrow> None)"

definition exit_object :: "'x raised + 'x bigmodel \<Rightarrow> 'x bigmodel option" where
  "exit_object r = (case r of Inl (e, obj) \<Rightarrow> obj | Inr s \<Rightarrow> Some s)"

lemma sa_loop_raises: "sa_body K ls = Inl r \<Longrightarrow> sa_loop K ls = Inl r"
  by (subst sa_loop.simps) simp

lemma stochapprox_raises: "\<exists>r. stochapprox K s = Inl r"
proof (cases "sa_init s")
  case (Inl e)
  then show ?thesis by (simp add: stochapprox_def)
next
  case (Inr ls)
  from sa_body_raises obtain r where "sa_body K ls = Inl r" by blast
  from sa_loop_raises [OF this] Inr show ?thesis
    by (simp add: stochapprox_def)
qed

lemma stochapprox_at_norm:
  assumes "sa_init s = Inr ls" and "sa_head K ls = Inr (h, s1)"
  shows "stochapprox K s = Inl (NameError ''norm'', Some s1)"
  using sa_loop_raises [OF sa_body_at_norm [OF assms(2)]] assms(1)
  by (simp add: stochapprox_def)

lemma stochapprox_in_head:
  assumes "sa_init s = Inr ls" and "sa_head K ls = Inl e"
  shows "stochapprox K s = Inl (e, None)"
proof -
  from assms(2) have "sa_body K ls = Inl (e, None)"
    by (simp add: sa_body_def)
  from sa_loop_raises [OF this] assms(1) show ?thesis
    by (simp add: stochapprox_def)
qed


text \<open>The schedule block writes nothing but the diagnostic list.\<close>

lemma schedule_frame:
  assumes "schedule l k s = Inr (r, s0)"
  shows "samplegen s0 = samplegen s \<and> external s0 = external s \<and>
    priorlogprobs s0 = priorlogprobs s \<and> params s0 = params s \<and>
    andradottir s0 = andradottir s \<and> ruppertaverage s0 = ruppertaverage s"
  using assms
  by (auto simp: schedule_def decay_index_def no_sign_switch_def bind_err_def
      split: if_splits sum.splits prod.splits)


text \<open>A family of states on which a pass of the loop can be followed by hand: one parameter,
  samples of one point from \<open>gen_from\<close>, the standard gradient and the running average.\<close>

definition run_state :: "real \<Rightarrow> unit bigmodel \<Rightarrow> bool" where
  "run_state c s \<longleftrightarrow>
     samplegen s = Some (gen_from c) \<and> (\<exists>th. params s = Some [th]) \<and> external s = None \<and>
     priorlogprobs s = None \<and> \<not> andradottir s \<and> ruppertaverage s"

lemma estimate_gen_from:
  assumes "run_state c s" and "matrixtrials s = 1" and "\<not> staticsample s"
  shows "\<exists>s'. estimate s = Inr s' \<and> mu s' = Some [c] \<and> samplegen s' = Some (gen_from (c + 2)) \<and>
    params s' = params s"
proof -
  from assms(1) obtain th where g: "samplegen s = Some (gen_from c)" and p: "params s = Some [th]"
      and e: "external s = None" "priorlogprobs s = None"
    by (auto simp: run_state_def)
  from assms(3) have "\<not> staticsample s \<or> 1 < matrixtrials s" by simp
  from trial_gen_from [OF g p this e]
  have "trial s =
    Inr (([c], th * c), (drawn c s)\<lparr>logv := Some [th * c], logZapprox := Some (th * c)\<rparr>)" .
  from estimate_one_trial [OF assms(2) this] p show ?thesis
    by (simp add: drawn_def clearcache_def)
qed

lemma sa_head_step:
  assumes sch: "schedule l (sa_k l + 1) s = Inr ((n, a), s0)" and rs: "run_state c s"
  shows "\<exists>s1. sa_head [K0] (l, s) =
       Inr ((sa_k l + 1, n, a, [c - K0],
             (case y_k l of None \<Rightarrow> y_kminus1 l | Some y0 \<Rightarrow> Some y0)), s1) \<and>
     params s1 = params s \<and> mu s1 = Some [c]"
proof -
  let ?s1 = "s0\<lparr>matrixtrials := 1, staticsample := False\<rparr>"
  from schedule_frame [OF sch] rs have rs1: "run_state c ?s1" and p0: "params s0 = params s"
    by (simp_all add: run_state_def)
  from estimate_gen_from [OF rs1] obtain s1 where
      e: "estimate ?s1 = Inr s1" and m: "mu s1 = Some [c]" and p1: "params s1 = params ?s1"
    by auto
  have an: "\<not> andradottir ?s1"
    using rs1 by (simp add: run_state_def)
  have gr: "gradient [K0] l ?s1 =
     Inr (([c - K0], (case y_k l of None \<Rightarrow> y_kminus1 l | Some y0 \<Rightarrow> Some y0)), s1)"
    using an e m by (simp add: gradient_def bind_err_def attr_def broadcast_def)
  have "sa_head [K0] (l, s) =
       Inr ((sa_k l + 1, n, a, [c - K0],
             (case y_k l of None \<Rightarrow> y_kminus1 l | Some y0 \<Rightarrow> Some y0)), s1)"
    using sch gr by (simp add: sa_head_def Let_def bind_err_def)
  with p1 p0 m show ?thesis
    by simp
qed

text \<open>The locals at the first pass of a call on a model with parameters \<open>[0]\<close>, initial step
  size 1 and no stored counter.\<close>

definition first_locals :: sa_locals where
  "first_locals =
     \<lparr>sa_k = 0, a_k = 1, sa_n = None, y_k = None, y_kminus1 = None, avgparams = [0],
      newparams = None\<rparr>"

section \<open>The averaged update (C5)\<close>

definition example_average :: "unit bigmodel" where
  "example_average =
     (init_model (gen_from 5))\<lparr>params := Some [0], a_0 := Some 1, a_0_hold := 2, maxiter := 2\<rparr>"

text \<open>The update of lines 599-609 taken by itself, on vectors of one length: the raw update
  is \<open>\<theta> - a_k y_k\<close>, the running average is \<open>(k-1)/k\<close> times the old one plus \<open>1/k\<close> times the
  raw update, and the average is what becomes the parameter vector.\<close>

lemma update_ruppert:
  assumes u: "update k a y l s = Inr ((newp, avg), s')"
    and r: "ruppertaverage s" and p: "params s = Some th"
    and ly: "length y = length th" and la: "length (avgparams l) = length th"
  shows "\<exists>raw. newp = Some raw \<and> length raw = length th \<and> length avg = length th \<and> k \<noteq> 0 \<and>
    params s' = Some avg \<and>
    (\<forall>c<length th. raw ! c = th ! c - a * y ! c \<and>
       avg ! c = (real_of_int k - 1) / real_of_int k * avgparams l ! c +
                 1 / real_of_int k * raw ! c)"
proof -
  let ?raw = "map2 (-) th (map (\<lambda>x. a * x) y)"
  let ?avg = "map2 (+) (map (\<lambda>x. (real_of_int k - 1.0) / real_of_int k * x) (avgparams l))
      (map (\<lambda>x. 1.0 / real_of_int k * x) ?raw)"
  have b1: "broadcast (-) th (map (\<lambda>x. a * x) y) = Inr ?raw"
    using ly by (simp add: broadcast_def)
  have b2: "broadcast (+) (map (\<lambda>x. (real_of_int k - 1.0) / real_of_int k * x) (avgparams l))
      (map (\<lambda>x. 1.0 / real_of_int k * x) ?raw) = Inr ?avg"
    using ly la by (simp add: broadcast_def)
  from u r p b1 have k: "k \<noteq> 0"
    by (cases "k = 0") (simp_all add: update_def bind_err_def attr_def)
  have upd: "update k a y l s = Inr ((Some ?raw, ?avg), setparams ?avg s)"
    unfolding update_def using r p k b1 b2
    by (simp only: if_True if_False bind_err_def attr_def option.simps sum.simps)
  from u [unfolded upd] have res: "newp = Some ?raw" "avg = ?avg" "s' = setparams ?avg s"
    by (auto simp only: sum.inject prod.inject)
  have "\<forall>c<length th. ?raw ! c = th ! c - a * y ! c \<and>
       ?avg ! c = (real_of_int k - 1) / real_of_int k * avgparams l ! c +
                 1 / real_of_int k * ?raw ! c"
    using ly la by simp
  with res k ly la show ?thesis
    by (intro exI [of _ ?raw]) (simp add: setparams_settings)
qed

text \<open>C5. \<^verbatim>\<open>stochapprox([0])\<close> on a model with averaging on (the default), parameters \<open>[0]\<close>,
  initial step size 1 and a sampler whose first sample has the feature matrix \<open>[[5]]\<close>: the
  first pass makes the gradient estimate (\<open>\<mu> = [5]\<close>, so \<open>y_1 = [5]\<close>) and then raises
  \<^verbatim>\<open>NameError\<close> at \<^verbatim>\<open>norm(y_k)\<close>, before the update. The object keeps the parameters \<open>[0]\<close>:
  no raw update \<open>\<theta> - a_1 y_1 = [-5]\<close> is formed and no running average is committed.\<close>

theorem averaged_update_not_reached:
  "exit_error (stochapprox [0] example_average) = Some (NameError ''norm'') \<and>
   map_option mu (exit_object (stochapprox [0] example_average)) = Some (Some [5]) \<and>
   map_option params (exit_object (stochapprox [0] example_average)) = Some (Some [0])"
proof -
  have i: "sa_init example_average = Inr (first_locals, example_average)"
    by (simp add: sa_init_def example_average_def init_model_def bind_err_def attr_def
        first_locals_def)
  have r: "run_state 5 example_average"
    by (simp add: run_state_def example_average_def init_model_def)
  have s: "schedule first_locals (sa_k first_locals + 1) example_average =
      Inr ((None, 1), example_average)"
    by (simp add: schedule_def first_locals_def example_average_def init_model_def)
  from sa_head_step [OF s r, of 0] obtain h s1 where
      h: "sa_head [0] (first_locals, example_average) = Inr (h, s1)"
      and p: "params s1 = params example_average" and m: "mu s1 = Some [5]"
    by auto
  from stochapprox_at_norm [OF i h] p m show ?thesis
    by (simp add: exit_error_def exit_object_def example_average_def init_model_def)
qed

section \<open>The step-size schedule (C6)\<close>



section \<open>The Deylon acceleration (C7)\<close>

definition example_deylon :: "unit bigmodel" where
  "example_deylon =
     (init_model (gen_from 5))\<lparr>params := Some [0], a_0 := Some 1, maxiter := 3, deylon := True\<rparr>"

text \<open>The Deylon block of lines 530-552 taken by itself, past \<open>H + 2\<close>: it needs \<open>y_k\<close> and
  \<open>y_kminus1\<close> bound, and then \<open>n\<close> grows by one when their dot product is negative and
  otherwise stays while \<open>k\<close> goes to the diagnostic list.\<close>

lemma decay_index_deylon:
  assumes "decay_index l k s = Inr (n, s0)" and "deylon s" and "a_0_hold s + 2 < k"
  shows "\<exists>y y'. y_k l = Some y \<and> y_kminus1 l = Some y' \<and>
    (inner y y' < 0 \<longrightarrow> (\<exists>n0. sa_n l = Some n0 \<and> n = Some (n0 + 1)) \<and> s0 = s) \<and>
    (\<not> inner y y' < 0 \<longrightarrow> n = sa_n l \<and> s0 = no_sign_switch k s)"
proof -
  from assms have a: "\<not> k \<le> 2 + a_0_hold s" by simp
  from assms(1,2) a obtain y where y: "y_k l = Some y"
    by (cases "y_k l") (simp_all add: decay_index_def bind_err_def local_var_def)
  from assms(1,2) a y obtain y' where y': "y_kminus1 l = Some y'"
    by (cases "y_kminus1 l") (simp_all add: decay_index_def bind_err_def local_var_def)
  from assms(1,2) a y y' have len: "length y = length y'"
    by (cases "length y = length y'")
      (simp_all add: decay_index_def bind_err_def local_var_def np_dot_def)
  have d: "decay_index l k s =
      (if inner y y' < 0 then bind_err (local_var ''n'' (sa_n l)) (\<lambda>n. Inr (Some (n + 1), s))
       else Inr (sa_n l, no_sign_switch k s))"
    using assms(2) a y y' len
    by (simp add: decay_index_def bind_err_def local_var_def np_dot_def)
  show ?thesis
  proof (cases "inner y y' < 0")
    case True
    with d assms(1) have "\<exists>n0. sa_n l = Some n0 \<and> n = Some (n0 + 1) \<and> s0 = s"
      by (cases "sa_n l") (simp_all add: bind_err_def local_var_def)
    with y y' True show ?thesis by auto
  next
    case False
    with d assms(1) have "n = sa_n l \<and> s0 = no_sign_switch k s" by simp
    with y y' False show ?thesis by auto
  qed
qed


text \<open>A call whose first pass is past \<open>H + 2\<close> reads \<open>y_k\<close> unbound.\<close>

lemma deylon_first_pass_raises:
  assumes "sa_init s = Inr (l, s0)" and "deylon s" and "a_0_hold s + 2 < sa_k l + 1"
  shows "stochapprox K s = Inl (NameError ''y_k'', None)"
proof -
  from assms(1) have i: "y_k l = None" "deylon s0 = deylon s" "a_0_hold s0 = a_0_hold s"
    by (auto simp: sa_init_def Let_def bind_err_def attr_def split: option.splits if_splits)
  with assms(2,3) have "schedule l (sa_k l + 1) s0 = Inl (NameError ''y_k'')"
    by (simp add: schedule_def decay_index_def bind_err_def local_var_def)
  then have "sa_head K (l, s0) = Inl (NameError ''y_k'')"
    by (simp add: sa_head_def Let_def bind_err_def)
  from stochapprox_in_head [OF assms(1) this] show ?thesis .
qed

text \<open>C7. \<^verbatim>\<open>stochapprox([0])\<close> on a model with the Deylon acceleration, hold count 0 and
  \<^verbatim>\<open>maxiter = 3\<close>. From a fresh model the first pass (\<open>k = 1 \<le> H + 2\<close>) raises \<^verbatim>\<open>NameError\<close>
  at \<^verbatim>\<open>norm(y_k)\<close>, so the pass \<open>k = 3\<close>, the first to compare two gradient estimates, does not
  take place. From a model resumed at the counter 2 the first pass has \<open>k = 3 > H + 2\<close> and
  reads \<open>y_k\<close> in \<^verbatim>\<open>np.dot(y_k, y_kminus1)\<close> before any pass of this call has assigned it: the
  call raises there. Either way the test of the sign switch never runs on two estimates.\<close>

theorem deylon_test_not_reached:
  "exit_error (stochapprox [0] example_deylon) = Some (NameError ''norm'') \<and>
   exit_error (stochapprox [0] (example_deylon\<lparr>paramslogcounter := Some 2\<rparr>)) =
     Some (NameError ''y_k'')"
proof -
  have i: "sa_init example_deylon = Inr (first_locals, example_deylon)"
    by (simp add: sa_init_def example_deylon_def init_model_def bind_err_def attr_def
        first_locals_def)
  have r: "run_state 5 example_deylon"
    by (simp add: run_state_def example_deylon_def init_model_def)
  have s: "schedule first_locals (sa_k first_locals + 1) example_deylon =
      Inr ((Some 1, 1), example_deylon)"
    by (simp add: schedule_def decay_index_def step_size_def decreasing_def bind_err_def
        attr_def local_var_def py_pow_def py_div_def first_locals_def example_deylon_def
        init_model_def)
  from sa_head_step [OF s r, of 0] obtain h s1 where
      h: "sa_head [0] (first_locals, example_deylon) = Inr (h, s1)"
    by auto
  from stochapprox_at_norm [OF i h]
  have A: "exit_error (stochapprox [0] example_deylon) = Some (NameError ''norm'')"
    by (simp add: exit_error_def)
  let ?s = "example_deylon\<lparr>paramslogcounter := Some 2\<rparr>"
  let ?l = "first_locals\<lparr>sa_k := 2\<rparr>"
  have i2: "sa_init ?s = Inr (?l, ?s)"
    by (simp add: sa_init_def example_deylon_def init_model_def bind_err_def attr_def
        first_locals_def)
  have "schedule ?l (sa_k ?l + 1) ?s = Inl (NameError ''y_k'')"
    by (simp add: schedule_def decay_index_def bind_err_def local_var_def first_locals_def
        example_deylon_def init_model_def)
  then have "sa_head [0] (?l, ?s) = Inl (NameError ''y_k'')"
    by (simp add: sa_head_def Let_def bind_err_def)
  from stochapprox_in_head [OF i2 this]
  have "exit_error (stochapprox [0] ?s) = Some (NameError ''y_k'')"
    by (simp add: exit_error_def)
  with A show ?thesis by simp
qed

section \<open>The settings that stochapprox forces (C10)\<close>






section \<open>Testing on the external samples (C9)\<close>

text \<open>Modelled from the spec: \<^verbatim>\<open>dual\<close> and \<^verbatim>\<open>grad\<close> are methods of the base class
  \<^verbatim>\<open>BaseModel\<close>, which is not among the sources at hand. \<^verbatim>\<open>test\<close> calls them with the penalty
  and the test turned off. The spec: "an unregularized dual value \<open>D_e = logZ_e(\<theta>) - \<theta>\<cdot>K\<close> and
  gradient norm \<open>\<parallel>\<mu>_e(\<theta>) - K\<parallel>\<close>", with the target expectations stored as \<^verbatim>\<open>self.K\<close>.\<close>

definition dual :: "'x bigmodel \<Rightarrow> error + (real \<times> 'x bigmodel)" where
  "dual s =
     bind_err (lognormconst s) (\<lambda>(z, s1).
     bind_err (attr ''params'' (params s1)) (\<lambda>th.
     bind_err (attr ''K'' (self_K s1)) (\<lambda>K.
     bind_err (np_dot th K) (\<lambda>d. Inr (z - d, s1)))))"

definition grad :: "'x bigmodel \<Rightarrow> error + (vec \<times> 'x bigmodel)" where
  "grad s =
     bind_err (expectations s) (\<lambda>(m, s1).
     bind_err (attr ''K'' (self_K s1)) (\<lambda>K.
     bind_err (broadcast (-) m K) (\<lambda>g. Inr (g, s1))))"

text \<open>\<^verbatim>\<open>np.average\<close> of a list of floats: the mean, and \<open>nan\<close> (here \<open>None\<close>) for the empty
  list. A comparison with \<open>nan\<close> is false.\<close>

definition np_average :: "real list \<Rightarrow> real option" where
  "np_average xs = (if xs = [] then None else Some (sum_list xs / real (length xs)))"

text \<open>The loop of \<^verbatim>\<open>test\<close> over the external samples, with the two methods of the base class
  as parameters. In \<^verbatim>\<open>gradnorms.append(norm(self.grad(ignorepenalty=True)))\<close> the name \<^verbatim>\<open>norm\<close>
  is looked up before \<^verbatim>\<open>self.grad\<close> is called.\<close>

fun test_samples ::
  "('x bigmodel \<Rightarrow> error + (real \<times> 'x bigmodel)) \<Rightarrow> ('x bigmodel \<Rightarrow> error + (vec \<times> 'x bigmodel)) \<Rightarrow>
     nat list \<Rightarrow> real list \<Rightarrow> real list \<Rightarrow> 'x bigmodel \<Rightarrow>
     error + ((real list \<times> real list) \<times> 'x bigmodel)" where
  "test_samples dual_m grad_m [] dualapprox gradnorms s = Inr ((dualapprox, gradnorms), s)"
| "test_samples dual_m grad_m (e # es) dualapprox gradnorms s =
     bind_err (dual_m (clearcache (s\<lparr>external := Some e\<rparr>))) (\<lambda>(d, s1).
     bind_err (global_name ''norm'') (\<lambda>py_norm.
     bind_err (grad_m s1) (\<lambda>(g, s2).
       test_samples dual_m grad_m es (dualapprox @ [d]) (gradnorms @ [py_norm g]) s2)))"

text \<open>\<^verbatim>\<open>test()\<close>: after the loop the selector goes back to the internal sample, the two lists
  are stored under the iteration count, and the best-so-far record is replaced when the mean
  dual is below \<^verbatim>\<open>self.bestdual\<close>. (The two histories are the dictionaries that
  \<^verbatim>\<open>settestsamples\<close> creates.)\<close>

definition test ::
  "('x bigmodel \<Rightarrow> error + (real \<times> 'x bigmodel)) \<Rightarrow> ('x bigmodel \<Rightarrow> error + (vec \<times> 'x bigmodel)) \<Rightarrow>
     'x bigmodel \<Rightarrow> error + 'x bigmodel" where
  "test dual_m grad_m s =
     bind_err (attr ''externalFs'' (externalFs s)) (\<lambda>Fs.
     bind_err (test_samples dual_m grad_m [0..<length Fs] [] [] s) (\<lambda>((dualapprox, gradnorms), s1).
       (let s2 = clearcache (s1\<lparr>external := None\<rparr>);
            meandual = np_average dualapprox;
            s3 = s2\<lparr>external_duals := (external_duals s2)(iters s2 \<mapsto> dualapprox),
                    external_gradnorms := (external_gradnorms s2)(iters s2 \<mapsto> gradnorms)\<rparr>
        in (case meandual of
              None \<Rightarrow> Inr s3
            | Some m \<Rightarrow>
                if less_xreal m (bestdual s3) then
                  bind_err (attr ''params'' (params s3)) (\<lambda>th.
                    Inr (s3\<lparr>bestdual := Fin m, bestparams := Some th\<rparr>))
                else Inr s3))))"

text \<open>The loop comes to its end only when there is no external sample.\<close>

lemma test_samples_returns:
  "test_samples dual_m grad_m es da gn s = Inr r \<Longrightarrow> es = [] \<and> r = ((da, gn), s)"
  by (cases es) (auto simp: bind_err_def global_name_def split: sum.splits prod.splits)

text \<open>So no call of \<^verbatim>\<open>test\<close> replaces the best-so-far record: with an external sample the
  call raises inside the loop, and without one the mean of the empty list is \<open>nan\<close>.\<close>

lemma test_keeps_best:
  assumes "test dual_m grad_m s = Inr s'"
  shows "bestdual s' = bestdual s \<and> bestparams s' = bestparams s"
proof -
  from assms obtain Fs r where Fs: "externalFs s = Some Fs"
      and r: "test_samples dual_m grad_m [0..<length Fs] [] [] s = Inr r"
    by (auto simp: test_def bind_err_def attr_def split: option.splits sum.splits)
  from test_samples_returns [OF r] have "r = (([], []), s)" by simp
  with assms Fs r show ?thesis
    by (auto simp: test_def bind_err_def attr_def Let_def np_average_def clearcache_def)
qed

text \<open>A model as \<^verbatim>\<open>settestsamples([F], [logprobs])\<close> leaves it, with one external sample of one
  point (\<open>F = [[5]]\<close>, \<open>logprobs = [0]\<close>), the parameters \<open>[0]\<close> and the target \<open>K = [0]\<close>.\<close>

definition example_tested :: "unit bigmodel" where
  "example_tested =
     example_model\<lparr>self_K := Some [0], testevery := 1,
       externalFs := Some [const_matrix 1 1 5], externallogprobs := Some [[0]]\<rparr>"

text \<open>C9. \<^verbatim>\<open>test()\<close> on that model, whose best dual is still \<^verbatim>\<open>float('inf')\<close>: the dual on the
  external sample is computed (it is 0, below the best so far), and the call then raises
  \<^verbatim>\<open>NameError\<close> at \<^verbatim>\<open>norm(self.grad(...))\<close>, inside the loop. The mean dual is not formed and
  the best-so-far record is not replaced.\<close>

theorem test_raises_before_record:
  "bestdual example_tested = PInf \<and>
   map_sum id fst (dual (clearcache (example_tested\<lparr>external := Some 0\<rparr>))) = Inr 0 \<and>
   test dual grad example_tested = Inl (NameError ''norm'')"
proof -
  let ?s = "clearcache (example_tested\<lparr>external := Some 0\<rparr>)"
  have w: "weights ?s = Inr [0]"
    by (simp add: weights_def example_tested_def example_model_def init_model_def clearcache_def
        attr_def bind_err_def index_def innerprodtranspose_def broadcast_def const_matrix_def
        inner_def col_def)
  have "logv ?s = None" by (simp add: clearcache_def)
  from p_logv_fresh [OF this w] have p: "p_logv ?s = Inr ([0], ?s\<lparr>logv := Some [0]\<rparr>)" .
  have z: "lognormconst ?s = Inr (0, ?s\<lparr>logv := Some [0], logZapprox := Some 0\<rparr>)"
    using p by (simp add: lognormconst_def clearcache_def bind_err_def logsumexp_def math_log_def)
  have d: "dual ?s = Inr (0, ?s\<lparr>logv := Some [0], logZapprox := Some 0\<rparr>)"
    using z
    by (simp add: dual_def bind_err_def attr_def np_dot_def inner_def clearcache_def
        example_tested_def example_model_def init_model_def)
  have "test_samples dual grad [0] [] [] example_tested = Inl (NameError ''norm'')"
    using d by (simp add: bind_err_def global_name_def)
  moreover have "externalFs example_tested = Some [const_matrix 1 1 5]"
    by (simp add: example_tested_def)
  ultimately have "test dual grad example_tested = Inl (NameError ''norm'')"
    by (simp add: test_def bind_err_def attr_def)
  with d show ?thesis
    by (simp add: example_tested_def example_model_def init_model_def)
qed

end
